theory Spec2Isabelle
  imports Complex_Main
begin

section \<open>Graph classification tutorial: data model\<close>

text \<open>
  The notebook \<^verbatim>\<open>graph_classification_tutorial.ipynb\<close> is a script over a graph library
  (\<^verbatim>\<open>dgl\<close>) and a tensor library (\<^verbatim>\<open>torch\<close>). The functions it defines itself are
  the batch collator, the model's forward pass, the training loop and the validation loop;
  they are embedded below as they are written. Library calls are embedded by their
  documented effect on the data the notebook passes them, each under a comment that says so.

  Numbers are idealised: a tensor entry is a \<^typ>\<open>real\<close>, so rounding, infinities and NaN of
  machine floats are outside the model. An exception of the program is a value
  \<open>Inl e\<close> of the result type.
\<close>

datatype py_error = ValueError | KeyError | ZeroDivisionError | RuntimeError | DGLError

type_synonym tensor1 = "real list"

type_synonym tensor2 = "real list list"

text \<open>
  A graph as the notebook sees it: the node count, the directed edge list (an undirected
  edge of the data set is stored in both directions), the node counts of the member graphs
  (a graph that is not a batch is its own single member) and the node-data dictionary
  \<^verbatim>\<open>g.ndata\<close>, a Python dict from feature names to tensors with one row per node. The
  dictionary is an association list with distinct keys in insertion order.
\<close>

record graph =
  num_nodes :: nat
  edges :: "(nat \<times> nat) list"
  batch_num_nodes :: "nat list"
  ndata :: "(string \<times> tensor2) list"

text \<open>Python's \<^verbatim>\<open>d[k] = v\<close> and \<^verbatim>\<open>d.pop(k)\<close> on the dictionary (\<^verbatim>\<open>pop\<close> raises
  \<^verbatim>\<open>KeyError\<close> on a missing key: the result \<open>None\<close>).\<close>

fun dict_set :: "('k \<times> 'v) list \<Rightarrow> 'k \<Rightarrow> 'v \<Rightarrow> ('k \<times> 'v) list" where
  "dict_set [] k v = [(k, v)]"
| "dict_set ((a, b) # ps) k v = (if a = k then (a, v) # ps else (a, b) # dict_set ps k v)"

fun dict_del :: "('k \<times> 'v) list \<Rightarrow> 'k \<Rightarrow> ('k \<times> 'v) list" where
  "dict_del [] k = []"
| "dict_del ((a, b) # ps) k = (if a = k then ps else (a, b) # dict_del ps k)"

definition dict_pop :: "('k \<times> 'v) list \<Rightarrow> 'k \<Rightarrow> ('v \<times> ('k \<times> 'v) list) option" where
  "dict_pop d k = (case map_of d k of None \<Rightarrow> None | Some v \<Rightarrow> Some (v, dict_del d k))"

section \<open>The batch collator\<close>

text \<open>
  Modelled from the spec: \<^verbatim>\<open>dgl.batch\<close> is library code that the sources only call. The
  spec describes it as merging a list of independently-sized graphs into one disjoint-union
  graph, nodes renumbered to a single contiguous range, per-graph boundaries tracked. Here
  the graphs are appended from left to right: the nodes of the next graph are numbered after
  those already merged (its edges are shifted by that count), its member sizes are appended
  to the boundaries, and its rows are appended to each feature of the first graph. An empty
  list has no merged graph.
\<close>

definition shift_edges :: "nat \<Rightarrow> (nat \<times> nat) list \<Rightarrow> (nat \<times> nat) list" where
  "shift_edges k es = map (\<lambda>(u, v). (u + k, v + k)) es"

definition ndata_rows :: "graph \<Rightarrow> string \<Rightarrow> tensor2" where
  "ndata_rows g k = (case map_of (ndata g) k of None \<Rightarrow> [] | Some t \<Rightarrow> t)"

definition append_graph :: "graph \<Rightarrow> graph \<Rightarrow> graph" where
  "append_graph acc g =
     \<lparr>num_nodes = num_nodes acc + num_nodes g,
      edges = edges acc @ shift_edges (num_nodes acc) (edges g),
      batch_num_nodes = batch_num_nodes acc @ batch_num_nodes g,
      ndata = map (\<lambda>(k, t). (k, t @ ndata_rows g k)) (ndata acc)\<rparr>"

definition batch :: "graph list \<Rightarrow> py_error + graph" where
  "batch graphs =
     (case graphs of
        [] \<Rightarrow> Inl DGLError
      | g # rest \<Rightarrow> Inr (foldl append_graph g rest))"

text \<open>
  \<^verbatim>\<open>torch.stack(labels, dim=0)\<close>: the labels in list order as one tensor; it refuses an
  empty list. A label is an integer class index.
\<close>

definition stack :: "int list \<Rightarrow> py_error + int list" where
  "stack labels = (if labels = [] then Inl RuntimeError else Inr labels)"

text \<open>
  \<^verbatim>\<open>zip(*data)\<close> transposes the list of pairs: it yields the tuple of first components,
  then the tuple of second components, and nothing at all for an empty list.
\<close>

fun unzip :: "('a \<times> 'b) list \<Rightarrow> 'a list \<times> 'b list" where
  "unzip [] = ([], [])"
| "unzip ((a, b) # ps) = (case unzip ps of (as, bs) \<Rightarrow> (a # as, b # bs))"

definition zip_star :: "('a \<times> 'b) list \<Rightarrow> ('a list \<times> 'b list) option" where
  "zip_star data = (if data = [] then None else Some (unzip data))"

text \<open>
  \<^verbatim>\<open>
  def collate_molgraphs_for_classification(data):
      graphs, labels = map(list, zip(*data))
      bg = dgl.batch(graphs)
      labels = torch.stack(labels, dim=0)
      return bg, labels
  \<close>
  Unpacking into two names raises \<^verbatim>\<open>ValueError\<close> when \<^verbatim>\<open>zip\<close> yields nothing.
\<close>

definition collate_molgraphs_for_classification ::
    "(graph \<times> int) list \<Rightarrow> py_error + (graph \<times> int list)" where
  "collate_molgraphs_for_classification data =
     (case zip_star data of
        None \<Rightarrow> Inl ValueError
      | Some (graphs, labels) \<Rightarrow>
          (case batch graphs of
             Inl e \<Rightarrow> Inl e
           | Inr bg \<Rightarrow>
               (case stack labels of
                  Inl e \<Rightarrow> Inl e
                | Inr labels' \<Rightarrow> Inr (bg, labels'))))"

section \<open>Tensor operations\<close>

text \<open>
  Row vectors and their arithmetic. \<open>vsum d rows\<close> is the sum of the rows, starting from the
  zero vector of width \<open>d\<close>, so the sum of no rows is that zero vector. \<open>relu\<close> is
  \<^verbatim>\<open>F.relu\<close>. A tensor of no rows carries no width here (\<open>ncols\<close> reads it as 0).
\<close>

definition vzero :: "nat \<Rightarrow> tensor1" where
  "vzero d = replicate d 0"

definition vadd :: "tensor1 \<Rightarrow> tensor1 \<Rightarrow> tensor1" where
  "vadd x y = map2 (+) x y"

definition vscale :: "real \<Rightarrow> tensor1 \<Rightarrow> tensor1" where
  "vscale c x = map ((*) c) x"

definition vsum :: "nat \<Rightarrow> tensor1 list \<Rightarrow> tensor1" where
  "vsum d rows = foldl vadd (vzero d) rows"

definition relu :: "tensor1 \<Rightarrow> tensor1" where
  "relu x = map (max 0) x"

definition ncols :: "tensor2 \<Rightarrow> nat" where
  "ncols t = (case t of [] \<Rightarrow> 0 | r # _ \<Rightarrow> length r)"

definition dot :: "tensor1 \<Rightarrow> tensor1 \<Rightarrow> real" where
  "dot x w = sum_list (map2 (*) x w)"

text \<open>The product of a row vector with a matrix given by its rows, of result width \<open>d\<close>.\<close>

definition vec_mat :: "nat \<Rightarrow> tensor1 \<Rightarrow> tensor2 \<Rightarrow> tensor1" where
  "vec_mat d x W = vsum d (map2 vscale x W)"

section \<open>The layers of the library\<close>

text \<open>
  Modelled from the spec: \<^verbatim>\<open>conv.GraphConv(in_feats, out_feats, activation=F.relu)\<close> is a
  library layer. The spec describes it as updating each node's feature vector by an
  aggregation of its neighbours' features followed by a learned linear transform, with a
  ReLU nonlinearity. The layer holds a weight matrix of \<open>in_feats\<close> rows and \<open>out_feats\<close>
  columns and a bias of width \<open>out_feats\<close>. The spec leaves the weighting of the aggregation
  open, so the coefficient that the layer gives the message along an edge is a field of
  the layer (1 for a plain sum; a degree normalisation otherwise). The aggregate of a node
  is the weighted sum of the rows of its in-neighbours, the zero vector of width \<open>in_feats\<close>
  when it has none. The library keeps every edge between existing nodes, so the row of a
  neighbour is read by index. The layer works on a local copy of the graph, so it leaves
  the graph as it is, and it refuses a feature tensor whose row count is not the graph's
  node count.
\<close>

record graph_conv =
  weight :: tensor2
  bias :: tensor1
  msg_coef :: "graph \<Rightarrow> nat \<Rightarrow> nat \<Rightarrow> real"

definition in_neighbours :: "graph \<Rightarrow> nat \<Rightarrow> nat list" where
  "in_neighbours g v = map fst (filter (\<lambda>(u, w). w = v) (edges g))"

definition aggregate :: "graph_conv \<Rightarrow> graph \<Rightarrow> tensor2 \<Rightarrow> nat \<Rightarrow> tensor1" where
  "aggregate p g h v =
     vsum (length (weight p)) (map (\<lambda>u. vscale (msg_coef p g u v) (h ! u)) (in_neighbours g v))"

definition graph_conv_forward :: "graph_conv \<Rightarrow> graph \<Rightarrow> tensor2 \<Rightarrow> py_error + tensor2" where
  "graph_conv_forward p g h =
     (if length h \<noteq> num_nodes g then Inl DGLError
      else Inr (map (\<lambda>v. relu (vadd (vec_mat (length (bias p)) (aggregate p g h v) (weight p))
                                   (bias p)))
                  [0..<num_nodes g]))"

text \<open>
  Modelled from the spec: \<^verbatim>\<open>nn.Linear(n_hidden, out_feats)\<close>, the single linear layer that
  maps the hidden width to the logits. Its weight has one row per output.
\<close>

record linear =
  lin_weight :: tensor2
  lin_bias :: tensor1

definition linear_forward :: "linear \<Rightarrow> tensor1 \<Rightarrow> tensor1" where
  "linear_forward p x = vadd (map (dot x) (lin_weight p)) (lin_bias p)"

text \<open>
  Modelled from the spec: \<^verbatim>\<open>dgl.sum_nodes(g, key)\<close>, the sum-pooling readout. It sums the
  rows of the feature within each member graph of the batch (per the batch's boundaries)
  and returns one row per member graph.
\<close>

fun segments :: "nat list \<Rightarrow> 'a list \<Rightarrow> 'a list list" where
  "segments [] xs = []"
| "segments (n # ns) xs = take n xs # segments ns (drop n xs)"

definition sum_nodes :: "graph \<Rightarrow> string \<Rightarrow> py_error + tensor2" where
  "sum_nodes g key =
     (case map_of (ndata g) key of
        None \<Rightarrow> Inl KeyError
      | Some t \<Rightarrow> Inr (map (vsum (ncols t)) (segments (batch_num_nodes g) t)))"

text \<open>
  \<^verbatim>\<open>g.ndata[key] = h\<close>: the library refuses a tensor whose row count is not the node count.
\<close>

definition set_ndata :: "graph \<Rightarrow> string \<Rightarrow> tensor2 \<Rightarrow> py_error + graph" where
  "set_ndata g key h =
     (if length h \<noteq> num_nodes g then Inl DGLError
      else Inr (g\<lparr>ndata := dict_set (ndata g) key h\<rparr>))"

text \<open>
  \<^verbatim>\<open>with g.local_scope(): body\<close>. On entry the library puts a fresh copy of the node-data
  dictionary in place, the body runs on it, and on exit the dictionary from before the
  block is put back: entries written inside the block are gone.
\<close>

definition local_scope ::
    "graph \<Rightarrow> (graph \<Rightarrow> py_error + (graph \<times> 'a)) \<Rightarrow> py_error + (graph \<times> 'a)" where
  "local_scope g body =
     (case body g of
        Inl e \<Rightarrow> Inl e
      | Inr (g', r) \<Rightarrow> Inr (g'\<lparr>ndata := ndata g\<rparr>, r))"

section \<open>The model\<close>

text \<open>
  \<^verbatim>\<open>
  class GCNModel(nn.Module):
      def __init__(self, in_feats, n_hidden, out_feats):
          super().__init__()
          self.layers = nn.ModuleList([
              conv.GraphConv(in_feats, n_hidden, activation=F.relu),
              conv.GraphConv(n_hidden, n_hidden, activation=F.relu),
              conv.GraphConv(n_hidden, n_hidden, activation=F.relu)
          ])
          self.classifier = nn.Linear(n_hidden, out_feats)

      def forward(self, g, features):
          h = features
          for layer in self.layers:
              h = layer(g, h)
          with g.local_scope():
              g.ndata['feat'] = h
              h_g = dgl.sum_nodes(g, 'feat')
          return self.classifier(h_g)
  \<close>
  The model is its parameters: the list of convolution layers and the classifier. The
  forward pass returns the graph as it is left behind together with the logits, one row
  per member graph.
\<close>

record gcn_model =
  layers :: "graph_conv list"
  classifier :: linear

fun apply_layers :: "graph_conv list \<Rightarrow> graph \<Rightarrow> tensor2 \<Rightarrow> py_error + tensor2" where
  "apply_layers [] g h = Inr h"
| "apply_layers (layer # rest) g h =
     (case graph_conv_forward layer g h of
        Inl e \<Rightarrow> Inl e
      | Inr h' \<Rightarrow> apply_layers rest g h')"

definition readout :: "tensor2 \<Rightarrow> graph \<Rightarrow> py_error + (graph \<times> tensor2)" where
  "readout h g =
     (case set_ndata g ''feat'' h of
        Inl e \<Rightarrow> Inl e
      | Inr g1 \<Rightarrow>
          (case sum_nodes g1 ''feat'' of
             Inl e \<Rightarrow> Inl e
           | Inr h_g \<Rightarrow> Inr (g1, h_g)))"

definition forward :: "gcn_model \<Rightarrow> graph \<Rightarrow> tensor2 \<Rightarrow> py_error + (graph \<times> tensor2)" where
  "forward m g features =
     (case apply_layers (layers m) g features of
        Inl e \<Rightarrow> Inl e
      | Inr h \<Rightarrow>
          (case local_scope g (readout h) of
             Inl e \<Rightarrow> Inl e
           | Inr (g', h_g) \<Rightarrow> Inr (g', map (linear_forward (classifier m)) h_g)))"

text \<open>
  The three-layer model that \<^verbatim>\<open>GCNModel(in_feats, n_hidden, out_feats)\<close> constructs, from
  the parameter tensors of its layers.
\<close>

definition GCNModel :: "graph_conv \<Rightarrow> graph_conv \<Rightarrow> graph_conv \<Rightarrow> linear \<Rightarrow> gcn_model" where
  "GCNModel conv1 conv2 conv3 cls = \<lparr>layers = [conv1, conv2, conv3], classifier = cls\<rparr>"



section \<open>Data loaders\<close>

text \<open>
  Modelled from the spec: \<^verbatim>\<open>DataLoader(subset, batch_size=512, collate_fn=...)\<close> is library
  code. The spec has the loops iterate mini-batches of size 512 in a fixed order: the
  loader cuts the subset into consecutive slices of \<open>batch_size\<close> entries, the last one
  shorter when the sizes do not divide, and hands each slice to the collate function when
  the loop reaches it. Iterating the loader again yields the same batches.
\<close>

function chunks :: "nat \<Rightarrow> 'a list \<Rightarrow> 'a list list" where
  "chunks n xs = (if n = 0 \<or> xs = [] then [] else take n xs # chunks n (drop n xs))"
  by pat_completeness auto
termination
  by (relation "measure (\<lambda>(n, xs). length xs)") auto

declare chunks.simps [simp del]

definition DataLoader :: "'a list \<Rightarrow> nat \<Rightarrow> ('a list \<Rightarrow> 'b) \<Rightarrow> 'b list" where
  "DataLoader dataset batch_size collate_fn = map collate_fn (chunks batch_size dataset)"

text \<open>
  \<^verbatim>\<open>
  train_loader = DataLoader(trainset, batch_size=512,
                            collate_fn=collate_molgraphs_for_classification)
  val_loader = DataLoader(valset, batch_size=512,
                          collate_fn=collate_molgraphs_for_classification)
  \<close>
\<close>

definition train_loader :: "(graph \<times> int) list \<Rightarrow> (py_error + (graph \<times> int list)) list" where
  "train_loader trainset = DataLoader trainset 512 collate_molgraphs_for_classification"

definition val_loader :: "(graph \<times> int) list \<Rightarrow> (py_error + (graph \<times> int list)) list" where
  "val_loader valset = DataLoader valset 512 collate_molgraphs_for_classification"

text \<open>A \<^verbatim>\<open>for\<close> loop over a list whose body may raise: the first exception ends the loop.\<close>

fun for_each :: "('s \<Rightarrow> 'b \<Rightarrow> 'e + 's) \<Rightarrow> 'b list \<Rightarrow> 's \<Rightarrow> 'e + 's" where
  "for_each body [] s = Inr s"
| "for_each body (b # bs) s =
     (case body s b of
        Inl e \<Rightarrow> Inl e
      | Inr s' \<Rightarrow> for_each body bs s')"

section \<open>Console output\<close>

text \<open>
  Python's \<^verbatim>\<open>"{:05d}".format(i)\<close> and \<^verbatim>\<open>"{:.4f}".format(x)\<close>. An integer is written in
  decimal and padded with zeros on the left to at least five characters. A number is
  rounded to four decimals, a tie to the even neighbour, and written with its sign (if
  negative), its integer part, a point and exactly four decimals.
\<close>

definition digit_char :: "nat \<Rightarrow> char" where
  "digit_char d = ''0123456789'' ! d"

fun show_nat :: "nat \<Rightarrow> string" where
  "show_nat n = (if n < 10 then [digit_char n] else show_nat (n div 10) @ [digit_char (n mod 10)])"

declare show_nat.simps [simp del]

definition zero_pad :: "nat \<Rightarrow> string \<Rightarrow> string" where
  "zero_pad width s = replicate (width - length s) (CHR ''0'') @ s"

definition format_05d :: "nat \<Rightarrow> string" where
  "format_05d i = zero_pad 5 (show_nat i)"

definition round_half_even :: "real \<Rightarrow> nat" where
  "round_half_even x =
     (let f = nat \<lfloor>x\<rfloor>; r = x - real f
      in if r < 1 / 2 then f else if 1 / 2 < r then f + 1 else if even f then f else f + 1)"

definition format_4f :: "real \<Rightarrow> string" where
  "format_4f x =
     (let s = round_half_even (\<bar>x\<bar> * 10000)
      in (if x < 0 then ''-'' else '''') @ show_nat (s div 10000) @ ''.''
           @ zero_pad 4 (show_nat (s mod 10000)))"

definition epoch_line :: "nat \<Rightarrow> real \<Rightarrow> real \<Rightarrow> string" where
  "epoch_line i loss accuracy =
     ''Epoch '' @ format_05d i @ '' | Loss: '' @ format_4f loss
       @ '' | Accuracy: '' @ format_4f accuracy"

definition validation_line :: "real \<Rightarrow> string" where
  "validation_line accuracy = ''Validation Accuracy: '' @ format_4f accuracy"




section \<open>Training\<close>

text \<open>
  The loss and the optimiser are library objects (\<^verbatim>\<open>torch.nn.CrossEntropyLoss()\<close>,
  \<^verbatim>\<open>Adam(model.parameters())\<close> on top of automatic differentiation). The loops use them as
  given: \<open>loss_criterion\<close> maps the logits and labels of a batch to the loss value, and
  \<open>optimizer_step\<close> stands for \<^verbatim>\<open>optimizer.zero_grad(); loss.backward(); optimizer.step()\<close>,
  which turns the parameters and the optimiser's state into new ones, from the batch the
  loss was computed on.
\<close>

record 'o torch =
  loss_criterion :: "tensor2 \<Rightarrow> int list \<Rightarrow> real"
  optimizer_step :: "gcn_model \<Rightarrow> 'o \<Rightarrow> graph \<Rightarrow> tensor2 \<Rightarrow> int list \<Rightarrow> gcn_model \<times> 'o"

text \<open>
  \<^verbatim>\<open>logits.argmax(1)\<close>: per row, the index of the first maximal entry (the classifier has
  six outputs, so a row is not empty; an empty row reads as 0 here).
  \<^verbatim>\<open>(logits.argmax(1)==labels.long()).float().sum().item()\<close> counts the rows whose index is
  the label; logits and labels both have one entry per graph of the batch.
\<close>

fun argmax_from :: "nat \<Rightarrow> real \<Rightarrow> nat \<Rightarrow> tensor1 \<Rightarrow> nat" where
  "argmax_from best best_val i [] = best"
| "argmax_from best best_val i (x # xs) =
     (if best_val < x then argmax_from i x (Suc i) xs else argmax_from best best_val (Suc i) xs)"

definition argmax :: "tensor1 \<Rightarrow> nat" where
  "argmax row = (case row of [] \<Rightarrow> 0 | x # xs \<Rightarrow> argmax_from 0 x 1 xs)"

definition count_correct :: "tensor2 \<Rightarrow> int list \<Rightarrow> nat" where
  "count_correct logits labels =
     length (filter (\<lambda>(row, label). int (argmax row) = label) (zip logits labels))"

definition mean :: "real list \<Rightarrow> real" where
  "mean xs = sum_list xs / real (length xs)"

text \<open>
  \<^verbatim>\<open>
  model.train()
  for i in range(epochs):
      loss_list = []
      true_samples = 0
      num_samples = 0
      for batch_id, batch_data in enumerate(train_loader):
          bg, labels = batch_data
          atom_feats = bg.ndata.pop('node_attr').float()
          atom_feats, labels = atom_feats.to(device), \
                                     labels.to(device).squeeze(-1)
          logits = model(bg, atom_feats)
          loss = loss_criterion(logits, labels)
          true_samples += (logits.argmax(1)==labels.long()).float().sum().item()
          num_samples += len(labels)
          loss_list.append(loss.item())
          optimizer.zero_grad()
          loss.backward()
          optimizer.step()
      print("Epoch {:05d} | Loss: {:.4f} | Accuracy: {:.4f}".format(i, np.mean(loss_list), true_samples/num_samples))
  \<close>
  The variables of the inner loop are the model, the optimiser state, \<open>loss_list\<close>,
  \<open>true_samples\<close> and \<open>num_samples\<close>. Conversions of type and device
  (\<^verbatim>\<open>.float()\<close>, \<^verbatim>\<open>.to(device)\<close>, \<^verbatim>\<open>.long()\<close>) and \<^verbatim>\<open>squeeze(-1)\<close> change no value of the
  model. The division \<^verbatim>\<open>true_samples/num_samples\<close> raises \<^verbatim>\<open>ZeroDivisionError\<close> when
  no sample was counted. The printed lines are returned in order.
\<close>

definition train_batch ::
    "'o torch \<Rightarrow> gcn_model \<times> 'o \<times> real list \<times> nat \<times> nat \<Rightarrow> py_error + (graph \<times> int list)
      \<Rightarrow> py_error + (gcn_model \<times> 'o \<times> real list \<times> nat \<times> nat)" where
  "train_batch lib vars batch_data =
     (case vars of (model, opt, loss_list, true_samples, num_samples) \<Rightarrow>
      (case batch_data of
         Inl e \<Rightarrow> Inl e
       | Inr (bg, labels) \<Rightarrow>
           (case dict_pop (ndata bg) ''node_attr'' of
              None \<Rightarrow> Inl KeyError
            | Some (atom_feats, rest) \<Rightarrow>
                (case forward model (bg\<lparr>ndata := rest\<rparr>) atom_feats of
                   Inl e \<Rightarrow> Inl e
                 | Inr (bg', logits) \<Rightarrow>
                     (case optimizer_step lib model opt bg' atom_feats labels of
                        (model', opt') \<Rightarrow>
                          Inr (model', opt',
                               loss_list @ [loss_criterion lib logits labels],
                               true_samples + count_correct logits labels,
                               num_samples + length labels))))))"

definition train_epoch ::
    "'o torch \<Rightarrow> (py_error + (graph \<times> int list)) list \<Rightarrow> nat \<Rightarrow> gcn_model \<times> 'o
      \<Rightarrow> py_error + ((gcn_model \<times> 'o) \<times> string)" where
  "train_epoch lib loader i state =
     (case for_each (train_batch lib) loader (fst state, snd state, [], 0, 0) of
        Inl e \<Rightarrow> Inl e
      | Inr (model', opt', loss_list, true_samples, num_samples) \<Rightarrow>
          if num_samples = 0 then Inl ZeroDivisionError
          else Inr ((model', opt'),
                    epoch_line i (mean loss_list) (real true_samples / real num_samples)))"

fun train_epochs ::
    "'o torch \<Rightarrow> (py_error + (graph \<times> int list)) list \<Rightarrow> nat list
      \<Rightarrow> (gcn_model \<times> 'o) \<times> string list \<Rightarrow> py_error + ((gcn_model \<times> 'o) \<times> string list)" where
  "train_epochs lib loader [] (state, out) = Inr (state, out)"
| "train_epochs lib loader (i # rest) (state, out) =
     (case train_epoch lib loader i state of
        Inl e \<Rightarrow> Inl e
      | Inr (state', line) \<Rightarrow> train_epochs lib loader rest (state', out @ [line]))"

definition training_loop ::
    "'o torch \<Rightarrow> nat \<Rightarrow> (py_error + (graph \<times> int list)) list \<Rightarrow> gcn_model \<Rightarrow> 'o
      \<Rightarrow> py_error + ((gcn_model \<times> 'o) \<times> string list)" where
  "training_loop lib epochs loader model opt =
     train_epochs lib loader [0..<epochs] ((model, opt), [])"

text \<open>\<^verbatim>\<open>epochs = 500 if torch.cuda.is_available() else 50\<close>\<close>

definition epochs :: "bool \<Rightarrow> nat" where
  "epochs cuda_is_available = (if cuda_is_available then 500 else 50)"

section \<open>Validation\<close>

text \<open>
  \<^verbatim>\<open>
  model.eval()
  true_samples = 0
  num_samples = 0
  with torch.no_grad():
      for batch_id, batch_data in enumerate(val_loader):
          bg, labels = batch_data
          atom_feats = bg.ndata.pop('node_attr')
          atom_feats, labels = atom_feats.to(device), \
                                     labels.to(device).squeeze(-1)
          logits = model(bg, atom_feats)
          logits.argmax()
          num_samples += len(labels)
          true_samples += (logits.argmax(1)==labels.long()).float().sum().item()
  print("Validation Accuracy: {:.4f}".format(true_samples/num_samples))
  \<close>
  The loop has no optimiser step: the model it is given is the model it leaves. The value
  of \<^verbatim>\<open>logits.argmax()\<close> is dropped.
\<close>

definition val_batch ::
    "gcn_model \<Rightarrow> nat \<times> nat \<Rightarrow> py_error + (graph \<times> int list) \<Rightarrow> py_error + (nat \<times> nat)" where
  "val_batch model vars batch_data =
     (case vars of (true_samples, num_samples) \<Rightarrow>
      (case batch_data of
         Inl e \<Rightarrow> Inl e
       | Inr (bg, labels) \<Rightarrow>
           (case dict_pop (ndata bg) ''node_attr'' of
              None \<Rightarrow> Inl KeyError
            | Some (atom_feats, rest) \<Rightarrow>
                (case forward model (bg\<lparr>ndata := rest\<rparr>) atom_feats of
                   Inl e \<Rightarrow> Inl e
                 | Inr (bg', logits) \<Rightarrow>
                     Inr (true_samples + count_correct logits labels,
                          num_samples + length labels)))))"

definition validation_counts ::
    "gcn_model \<Rightarrow> (py_error + (graph \<times> int list)) list \<Rightarrow> py_error + (nat \<times> nat)" where
  "validation_counts model loader = for_each (val_batch model) loader (0, 0)"

definition validation ::
    "gcn_model \<Rightarrow> (py_error + (graph \<times> int list)) list \<Rightarrow> py_error + string" where
  "validation model loader =
     (case validation_counts model loader of
        Inl e \<Rightarrow> Inl e
      | Inr (true_samples, num_samples) \<Rightarrow>
          if num_samples = 0 then Inl ZeroDivisionError
          else Inr (validation_line (real true_samples / real num_samples)))"

text \<open>
  A data set entry as \<^verbatim>\<open>TUDataset\<close> hands it out: a single graph whose node features are
  stored under \<^verbatim>\<open>node_attr\<close>, one row per node.
\<close>

definition has_node_attr :: "graph \<Rightarrow> bool" where
  "has_node_attr g =
     (case map_of (ndata g) ''node_attr'' of
        None \<Rightarrow> False
      | Some t \<Rightarrow> length t = num_nodes g)"

definition dataset_entry :: "graph \<times> int \<Rightarrow> bool" where
  "dataset_entry d = (batch_num_nodes (fst d) = [num_nodes (fst d)] \<and> has_node_attr (fst d))"

text \<open>
  The logits and the count of correct predictions that a model gives a batch of entries:
  the entries are collated, the features are taken out of the merged graph, and the
  forward pass runs on them.
\<close>

definition predict :: "gcn_model \<Rightarrow> (graph \<times> int) list \<Rightarrow> py_error + tensor2" where
  "predict model entries =
     (case collate_molgraphs_for_classification entries of
        Inl e \<Rightarrow> Inl e
      | Inr (bg, labels) \<Rightarrow>
          (case dict_pop (ndata bg) ''node_attr'' of
             None \<Rightarrow> Inl KeyError
           | Some (atom_feats, rest) \<Rightarrow>
               (case forward model (bg\<lparr>ndata := rest\<rparr>) atom_feats of
                  Inl e \<Rightarrow> Inl e
                | Inr (bg', logits) \<Rightarrow> Inr logits)))"

definition correct_predictions :: "gcn_model \<Rightarrow> (graph \<times> int) list \<Rightarrow> nat" where
  "correct_predictions model entries =
     (case predict model entries of
        Inl e \<Rightarrow> 0
      | Inr logits \<Rightarrow> count_correct logits (map snd entries))"

section \<open>The train/validation split\<close>

text \<open>
  Modelled from the spec: \<^verbatim>\<open>split_dataset\<close> is imported from \<^verbatim>\<open>dgl.data.utils\<close>; the sources
  only call it. The spec gives it a data set, split ratios that sum to 1, a shuffle flag
  and a seed, and has it return disjoint index subsets that cover the whole data set, of
  sizes proportional to the ratios, rounded deterministically. Here the shuffled order of
  the indices is the library's random permutation for the seed, a parameter of the model;
  every subset but the last gets its ratio of the data set rounded down and the last one
  the remainder; the subsets are consecutive slices of the index order.
\<close>

definition split_lengths :: "nat \<Rightarrow> real list \<Rightarrow> nat list" where
  "split_lengths num_data frac_list =
     (case frac_list of
        [] \<Rightarrow> []
      | _ # _ \<Rightarrow>
          (let lengths = map (\<lambda>frac. nat \<lfloor>real num_data * frac\<rfloor>) (butlast frac_list)
           in lengths @ [num_data - sum_list lengths]))"

definition split_dataset ::
    "(nat \<Rightarrow> nat \<Rightarrow> nat list) \<Rightarrow> 'a list \<Rightarrow> real list \<Rightarrow> bool \<Rightarrow> nat \<Rightarrow> nat list list" where
  "split_dataset permutation dataset frac_list shuffle random_state =
     (let num_data = length dataset;
          indices = (if shuffle then permutation random_state num_data else [0..<num_data])
      in segments (split_lengths num_data frac_list) indices)"

text \<open>
  \<^verbatim>\<open>trainset, valset = split_dataset(dataset, [0.8, 0.2], shuffle=True, random_state=42)\<close>,
  with the seed left open. Unpacking into two names needs exactly two subsets.
\<close>

definition train_val_split ::
    "(nat \<Rightarrow> nat \<Rightarrow> nat list) \<Rightarrow> 'a list \<Rightarrow> nat \<Rightarrow> py_error + (nat list \<times> nat list)" where
  "train_val_split permutation dataset random_state =
     (case split_dataset permutation dataset [4 / 5, 1 / 5] True random_state of
        [trainset, valset] \<Rightarrow> Inr (trainset, valset)
      | _ \<Rightarrow> Inl ValueError)"

section \<open>Example data\<close>

text \<open>A small data set, model and library stand-ins on which the definitions are run.\<close>

definition example_graph_a :: graph where
  "example_graph_a =
     \<lparr>num_nodes = 2, edges = [(0, 1), (1, 0)], batch_num_nodes = [2],
      ndata = [(''node_attr'', [[1, 0], [0, 1]])]\<rparr>"

definition example_graph_b :: graph where
  "example_graph_b =
     \<lparr>num_nodes = 1, edges = [], batch_num_nodes = [1],
      ndata = [(''node_attr'', [[2, 2]])]\<rparr>"

definition example_edgeless :: graph where
  "example_edgeless =
     \<lparr>num_nodes = 2, edges = [], batch_num_nodes = [2],
      ndata = [(''node_attr'', [[1, 2], [3, 4]])]\<rparr>"

definition example_dataset :: "(graph \<times> int) list" where
  "example_dataset = [(example_graph_a, 2), (example_graph_b, 1)]"

definition example_conv1 :: graph_conv where
  "example_conv1 = \<lparr>weight = [[1, 0], [0, 1]], bias = [1, -1], msg_coef = (\<lambda>g u v. 1)\<rparr>"

definition example_conv2 :: graph_conv where
  "example_conv2 = \<lparr>weight = [[1, 2], [3, 4]], bias = [0, 2], msg_coef = (\<lambda>g u v. 1)\<rparr>"

definition example_conv3 :: graph_conv where
  "example_conv3 = \<lparr>weight = [[1, 1], [1, -1]], bias = [-3, 1 / 2], msg_coef = (\<lambda>g u v. 1)\<rparr>"

definition example_classifier :: linear where
  "example_classifier = \<lparr>lin_weight = [[1, 2], [0, 1], [1, 1]], lin_bias = [0, 1, 2]\<rparr>"

definition example_model :: gcn_model where
  "example_model = GCNModel example_conv1 example_conv2 example_conv3 example_classifier"

text \<open>A constant loss, and an optimiser that shifts the classifier's bias and counts its steps.\<close>

definition example_torch :: "nat torch" where
  "example_torch =
     \<lparr>loss_criterion = (\<lambda>logits labels. 1 / 2),
      optimizer_step = (\<lambda>model opt bg atom_feats labels.
        (model\<lparr>classifier := (classifier model)\<lparr>lin_bias := map (\<lambda>b. b + 1) (lin_bias (classifier model))\<rparr>\<rparr>,
         Suc opt))\<rparr>"

text \<open>A shuffle that reverses the index order, whatever the seed.\<close>

definition example_permutation :: "nat \<Rightarrow> nat \<Rightarrow> nat list" where
  "example_permutation random_state num_data = rev [0..<num_data]"

section \<open>Evaluation on concrete data\<close>

text \<open>The defining equations that run the model on the example data, by rewriting.\<close>

lemma replicate_numeral_Cons: "replicate (numeral k) x = x # replicate (pred_numeral k) x"
  by (simp add: numeral_eq_Suc)

lemmas tensor_defs =
  vsum_def vadd_def vscale_def vzero_def relu_def vec_mat_def ncols_def dot_def

lemmas model_defs =
  forward_def GCNModel_def graph_conv_forward_def aggregate_def in_neighbours_def
  local_scope_def readout_def set_ndata_def sum_nodes_def linear_forward_def

lemmas collate_defs =
  collate_molgraphs_for_classification_def zip_star_def batch_def stack_def append_graph_def
  shift_edges_def ndata_rows_def

lemmas loop_defs =
  training_loop_def train_epoch_def train_batch_def val_batch_def validation_def
  validation_counts_def train_loader_def val_loader_def DataLoader_def chunks.simps
  dict_pop_def count_correct_def argmax_def mean_def predict_def correct_predictions_def

lemmas format_defs =
  epoch_line_def validation_line_def format_05d_def format_4f_def zero_pad_def
  show_nat.simps digit_char_def round_half_even_def replicate_numeral_Cons

lemmas example_defs =
  example_graph_a_def example_graph_b_def example_edgeless_def example_dataset_def
  example_conv1_def example_conv2_def example_conv3_def example_classifier_def
  example_model_def example_torch_def

lemma example_dataset_entries: "list_all dataset_entry example_dataset"
  by (simp add: dataset_entry_def has_node_attr_def example_defs)

lemma example_dataset_nonempty: "example_dataset \<noteq> []"
  by (simp add: example_dataset_def)

section \<open>Properties of the collator\<close>

lemma unzip_eq: "unzip ps = (map fst ps, map snd ps)"
  by (induction ps) auto

lemma num_nodes_foldl_append_graph:
  "num_nodes (foldl append_graph g gs) = num_nodes g + sum_list (map num_nodes gs)"
  by (induction gs arbitrary: g) (simp_all add: append_graph_def)

lemma batch_num_nodes_total:
  "batch gs = Inr bg \<Longrightarrow> num_nodes bg = sum_list (map num_nodes gs)"
  by (cases gs) (auto simp: batch_def num_nodes_foldl_append_graph)

lemma collate_unfold:
  "data \<noteq> [] \<Longrightarrow>
   collate_molgraphs_for_classification data =
     Inr (foldl append_graph (fst (hd data)) (map fst (tl data)), map snd data)"
  by (cases data)
     (simp_all add: collate_molgraphs_for_classification_def zip_star_def unzip_eq batch_def
        stack_def)

lemma collate_empty: "collate_molgraphs_for_classification [] = Inl ValueError"
  by (simp add: collate_molgraphs_for_classification_def zip_star_def)

lemma collate_Inr_iff:
  "(\<exists>r. collate_molgraphs_for_classification data = Inr r) \<longleftrightarrow> data \<noteq> []"
  by (cases "data = []") (simp_all add: collate_empty collate_unfold)

lemma collate_label_order_aux:
  "collate_molgraphs_for_classification data = Inr (bg, labels) \<Longrightarrow> labels = map snd data"
  using collate_unfold [of data] by (cases "data = []") (simp_all add: collate_empty)

text \<open>
  Claim C3. The batch collator preserves the total node count: whenever it returns a merged
  graph for a list of (graph, label) pairs, the number of nodes of the merged graph is the
  sum of the node counts of the input graphs. (The collator returns exactly for the lists
  that are not empty, see \<open>collate_Inr_iff\<close>.)
\<close>

theorem collate_preserves_node_count:
  assumes "collate_molgraphs_for_classification data = Inr (bg, labels)"
  shows "num_nodes bg = sum_list (map (\<lambda>(g, l). num_nodes g) data)"
proof -
  from assms have ne: "data \<noteq> []"
    by (auto simp: collate_empty)
  then obtain d ds where data: "data = d # ds"
    by (cases data) auto
  from assms collate_unfold [OF ne]
  have "bg = foldl append_graph (fst (hd data)) (map fst (tl data))"
    by simp
  then have "num_nodes bg = num_nodes (fst d) + sum_list (map num_nodes (map fst ds))"
    by (simp add: data num_nodes_foldl_append_graph)
  also have "\<dots> = sum_list (map (\<lambda>(g, l). num_nodes g) data)"
    by (simp add: data case_prod_unfold comp_def)
  finally show ?thesis .
qed

theorem collate_preserves_node_count_witness:
  "collate_molgraphs_for_classification
     [(\<lparr>num_nodes = 2, edges = [(0, 1), (1, 0)], batch_num_nodes = [2],
        ndata = [(''node_attr'', [[1], [2]])]\<rparr>, 3),
      (\<lparr>num_nodes = 3, edges = [(0, 2), (2, 0)], batch_num_nodes = [3],
        ndata = [(''node_attr'', [[4], [5], [6]])]\<rparr>, 5)]
   = Inr (\<lparr>num_nodes = 5, edges = [(0, 1), (1, 0), (2, 4), (4, 2)], batch_num_nodes = [2, 3],
        ndata = [(''node_attr'', [[1], [2], [4], [5], [6]])]\<rparr>, [3, 5])
   \<and> num_nodes \<lparr>num_nodes = 5, edges = [(0, 1), (1, 0), (2, 4), (4, 2)],
        batch_num_nodes = [2, 3], ndata = [(''node_attr'', [[1], [2], [4], [5], [6]])]\<rparr>
     = (2::nat) + 3"
proof -
  have run: "collate_molgraphs_for_classification
     [(\<lparr>num_nodes = 2, edges = [(0, 1), (1, 0)], batch_num_nodes = [2],
        ndata = [(''node_attr'', [[1], [2]])]\<rparr>, 3),
      (\<lparr>num_nodes = 3, edges = [(0, 2), (2, 0)], batch_num_nodes = [3],
        ndata = [(''node_attr'', [[4], [5], [6]])]\<rparr>, 5)]
   = Inr (\<lparr>num_nodes = 5, edges = [(0, 1), (1, 0), (2, 4), (4, 2)], batch_num_nodes = [2, 3],
        ndata = [(''node_attr'', [[1], [2], [4], [5], [6]])]\<rparr>, [3, 5])"
    by (simp add: collate_molgraphs_for_classification_def zip_star_def batch_def stack_def
        append_graph_def shift_edges_def ndata_rows_def)
  from collate_preserves_node_count [OF run] run show ?thesis
    by simp
qed

text \<open>
  Claim C4. The label vector returned by the collator lists the labels in exactly the order
  of the input pairs: it has one label per pair, and its \<open>i\<close>-th label is the label of the
  \<open>i\<close>-th pair, so predictions and labels stay aligned. (The collator returns exactly for
  the lists that are not empty, see \<open>collate_Inr_iff\<close>.)
\<close>

theorem collate_label_order:
  assumes "collate_molgraphs_for_classification data = Inr (bg, labels)"
  shows "labels = map snd data
    \<and> length labels = length data
    \<and> (\<forall>i<length data. labels ! i = snd (data ! i))"
proof -
  from assms have "data \<noteq> []"
    by (auto simp: collate_empty)
  from collate_unfold [OF this] assms have "labels = map snd data"
    by simp
  then show ?thesis
    by simp
qed

theorem collate_label_order_witness:
  "collate_molgraphs_for_classification
     [(\<lparr>num_nodes = 1, edges = [], batch_num_nodes = [1], ndata = []\<rparr>, 4),
      (\<lparr>num_nodes = 2, edges = [(0, 1)], batch_num_nodes = [2], ndata = []\<rparr>, 0),
      (\<lparr>num_nodes = 1, edges = [], batch_num_nodes = [1], ndata = []\<rparr>, 2)]
   = Inr (\<lparr>num_nodes = 4, edges = [(1, 2)], batch_num_nodes = [1, 2, 1], ndata = []\<rparr>,
        [4, 0, 2])
   \<and> [4, 0, 2 :: int]
     = map snd
        [(\<lparr>num_nodes = 1, edges = [], batch_num_nodes = [1], ndata = []\<rparr>, 4),
         (\<lparr>num_nodes = 2, edges = [(0, 1)], batch_num_nodes = [2], ndata = []\<rparr>, 0),
         (\<lparr>num_nodes = 1, edges = [], batch_num_nodes = [1], ndata = []\<rparr>, 2)]"
proof -
  have run: "collate_molgraphs_for_classification
     [(\<lparr>num_nodes = 1, edges = [], batch_num_nodes = [1], ndata = []\<rparr>, 4),
      (\<lparr>num_nodes = 2, edges = [(0, 1)], batch_num_nodes = [2], ndata = []\<rparr>, 0),
      (\<lparr>num_nodes = 1, edges = [], batch_num_nodes = [1], ndata = []\<rparr>, 2)]
   = Inr (\<lparr>num_nodes = 4, edges = [(1, 2)], batch_num_nodes = [1, 2, 1], ndata = []\<rparr>,
        [4, 0, 2])"
    by (simp add: collate_molgraphs_for_classification_def zip_star_def batch_def stack_def
        append_graph_def shift_edges_def ndata_rows_def)
  from collate_label_order [OF run] run show ?thesis
    by blast
qed

section \<open>Properties of the forward pass\<close>

lemma map_of_dict_set_same: "map_of (dict_set d k v) k = Some v"
  by (induction d k v rule: dict_set.induct) auto






lemma apply_layers_length:
  "apply_layers ls g h = Inr h' \<Longrightarrow> length h = num_nodes g \<Longrightarrow> length h' = num_nodes g"
  by (induction ls arbitrary: h)
     (auto simp: graph_conv_forward_def split: if_splits sum.splits)

lemma apply_layers_returns:
  "length h = num_nodes g \<Longrightarrow> \<exists>h'. apply_layers ls g h = Inr h' \<and> length h' = num_nodes g"
  by (induction ls arbitrary: h) (auto simp: graph_conv_forward_def)

lemma apply_layers_error:
  "length h \<noteq> num_nodes g \<Longrightarrow> ls \<noteq> [] \<Longrightarrow> apply_layers ls g h = Inl DGLError"
  by (cases ls) (auto simp: graph_conv_forward_def)

lemma local_scope_readout:
  "length h = num_nodes g \<Longrightarrow>
   local_scope g (readout h) = Inr (g, map (vsum (ncols h)) (segments (batch_num_nodes g) h))"
  by (simp add: local_scope_def readout_def set_ndata_def sum_nodes_def map_of_dict_set_same)

lemma forward_eq:
  assumes "apply_layers (layers m) g features = Inr h" and "length h = num_nodes g"
  shows "forward m g features =
    Inr (g, map (linear_forward (classifier m))
              (map (vsum (ncols h)) (segments (batch_num_nodes g) h)))"
  using assms by (simp add: forward_def local_scope_readout)

lemma forward_returns:
  assumes "length features = num_nodes g"
  shows "\<exists>logits. forward m g features = Inr (g, logits)
           \<and> length logits = length (batch_num_nodes g)"
proof -
  from apply_layers_returns [OF assms] obtain h where
    h: "apply_layers (layers m) g features = Inr h" "length h = num_nodes g"
    by blast
  have "length (segments ns xs) = length ns" for ns and xs :: "'a list"
    by (induction ns arbitrary: xs) auto
  with forward_eq [OF h] show ?thesis
    by simp
qed



text \<open>
  Claim C9. The forward pass leaves the graph's node data unchanged: the per-node embedding
  written under the key \<^verbatim>\<open>feat\<close> for the readout lives in the local scope only and is
  not on the graph when forward has returned.
\<close>

theorem forward_keeps_ndata:
  assumes "forward m g features = Inr (g', logits)"
  shows "ndata g' = ndata g"
  using assms
  by (auto simp: forward_def local_scope_def split: sum.splits prod.splits)

theorem forward_keeps_ndata_witness:
  "forward example_model example_graph_a [[1, 0], [0, 1]] = Inr (example_graph_a, [[7, 1, 9]])
   \<and> ndata example_graph_a = [(''node_attr'', [[1, 0], [0, 1]])]
   \<and> map_of (ndata example_graph_a) ''feat'' = None"
proof -
  have run: "forward example_model example_graph_a [[1, 0], [0, 1]]
      = Inr (example_graph_a, [[7, 1, 9]])"
    by (simp add: model_defs tensor_defs example_defs upt_rec)
  from forward_keeps_ndata [OF run] run show ?thesis
    by (simp add: example_graph_a_def)
qed

section \<open>Properties of the loader\<close>

lemma chunks_Nil: "chunks n [] = []"
  by (simp add: chunks.simps)

lemma chunks_zero: "chunks 0 xs = []"
  by (simp add: chunks.simps)

lemma chunks_Cons:
  "0 < n \<Longrightarrow> xs \<noteq> [] \<Longrightarrow> chunks n xs = take n xs # chunks n (drop n xs)"
  by (subst chunks.simps) simp

lemma concat_chunks: "0 < n \<Longrightarrow> concat (chunks n xs) = xs"
proof (induction n xs rule: chunks.induct)
  case (1 n xs)
  show ?case
  proof (cases "xs = []")
    case True
    then show ?thesis by (simp add: chunks_Nil)
  next
    case False
    with 1 show ?thesis by (simp add: chunks_Cons)
  qed
qed

lemma chunks_eq_Nil_iff: "0 < n \<Longrightarrow> chunks n xs = [] \<longleftrightarrow> xs = []"
  by (cases "xs = []") (simp_all add: chunks_Nil chunks_Cons)

lemma sum_length_chunks: "0 < n \<Longrightarrow> sum_list (map length (chunks n xs)) = length xs"
proof -
  assume "0 < n"
  then have "length (concat (chunks n xs)) = length xs"
    by (simp add: concat_chunks)
  then show ?thesis
    by (simp add: length_concat)
qed

lemma chunks_member:
  "c \<in> set (chunks n xs) \<Longrightarrow> list_all P xs \<Longrightarrow> c \<noteq> [] \<and> list_all P c"
proof (induction n xs rule: chunks.induct)
  case (1 n xs)
  show ?case
  proof (cases "n = 0 \<or> xs = []")
    case True
    with "1.prems" show ?thesis
      by (auto simp: chunks_Nil chunks_zero)
  next
    case False
    then have unfold: "chunks n xs = take n xs # chunks n (drop n xs)"
      by (simp add: chunks_Cons)
    have P_take: "list_all P (take n xs)" and P_drop: "list_all P (drop n xs)"
      using "1.prems"(2) by (auto simp: list_all_iff dest: in_set_takeD in_set_dropD)
    from "1.prems"(1) unfold consider "c = take n xs" | "c \<in> set (chunks n (drop n xs))"
      by auto
    then show ?thesis
    proof cases
      case 1
      with False P_take show ?thesis by auto
    next
      case 2
      from "1.IH" [OF False 2 P_drop] show ?thesis .
    qed
  qed
qed

section \<open>Batches of data set entries\<close>

lemma map_of_map_keyed:
  "map_of (map (\<lambda>(k, t). (k, f k t)) nd) key = map_option (f key) (map_of nd key)"
  by (induction nd) auto

lemma has_node_attr_append_graph:
  assumes "has_node_attr acc" and "has_node_attr g"
  shows "has_node_attr (append_graph acc g)"
  using assms
  by (auto simp: has_node_attr_def append_graph_def map_of_map_keyed ndata_rows_def
      split: option.splits)

lemma has_node_attr_foldl:
  "has_node_attr g \<Longrightarrow> list_all has_node_attr gs \<Longrightarrow> has_node_attr (foldl append_graph g gs)"
  by (induction gs arbitrary: g) (simp_all add: has_node_attr_append_graph)

lemma batch_num_nodes_foldl:
  "batch_num_nodes (foldl append_graph g gs) = batch_num_nodes g @ concat (map batch_num_nodes gs)"
  by (induction gs arbitrary: g) (simp_all add: append_graph_def)

lemma length_batch_num_nodes_foldl:
  assumes "batch_num_nodes g = [num_nodes g]"
    and "list_all (\<lambda>g. batch_num_nodes g = [num_nodes g]) gs"
  shows "length (batch_num_nodes (foldl append_graph g gs)) = Suc (length gs)"
proof -
  have "length (concat (map batch_num_nodes gs)) = length gs"
    using assms(2) by (induction gs) simp_all
  with assms(1) show ?thesis
    by (simp add: batch_num_nodes_foldl)
qed

lemma collate_entries:
  assumes "list_all dataset_entry c" and "c \<noteq> []"
  shows "\<exists>bg. collate_molgraphs_for_classification c = Inr (bg, map snd c)
           \<and> has_node_attr bg \<and> length (batch_num_nodes bg) = length c"
proof -
  from assms(2) obtain d ds where c: "c = d # ds"
    by (cases c) auto
  let ?bg = "foldl append_graph (fst d) (map fst ds)"
  have run: "collate_molgraphs_for_classification c = Inr (?bg, map snd c)"
    using collate_unfold [OF assms(2)] by (simp add: c)
  have attrs: "has_node_attr (fst d)" "list_all has_node_attr (map fst ds)"
    using assms(1) by (simp_all add: c dataset_entry_def list_all_iff)
  have sizes: "batch_num_nodes (fst d) = [num_nodes (fst d)]"
    "list_all (\<lambda>g. batch_num_nodes g = [num_nodes g]) (map fst ds)"
    using assms(1) by (simp_all add: c dataset_entry_def list_all_iff)
  from has_node_attr_foldl [OF attrs] length_batch_num_nodes_foldl [OF sizes] run
  show ?thesis
    by (simp add: c)
qed

lemma predict_returns:
  assumes "list_all dataset_entry c" and "c \<noteq> []"
  shows "\<exists>logits. predict model c = Inr logits \<and> length logits = length c"
proof -
  from collate_entries [OF assms] obtain bg where
    bg: "collate_molgraphs_for_classification c = Inr (bg, map snd c)"
      "has_node_attr bg" "length (batch_num_nodes bg) = length c"
    by blast
  from bg(2) obtain t where t: "map_of (ndata bg) ''node_attr'' = Some t" "length t = num_nodes bg"
    by (auto simp: has_node_attr_def split: option.splits)
  let ?bg = "bg\<lparr>ndata := dict_del (ndata bg) ''node_attr''\<rparr>"
  have "length t = num_nodes ?bg"
    using t(2) by simp
  from forward_returns [OF this, of model] obtain logits where
    "forward model ?bg t = Inr (?bg, logits)" "length logits = length (batch_num_nodes ?bg)"
    by blast
  with bg t show ?thesis
    by (simp add: predict_def dict_pop_def)
qed

lemma predict_val_batch:
  assumes "predict model c = Inr logits"
  shows "val_batch model (t, n) (collate_molgraphs_for_classification c) =
    Inr (t + count_correct logits (map snd c), n + length c)"
proof -
  from assms obtain bg labels where
    bg: "collate_molgraphs_for_classification c = Inr (bg, labels)"
    by (auto simp: predict_def split: sum.splits)
  from collate_label_order_aux [OF bg] have "labels = map snd c" .
  with assms bg show ?thesis
    by (auto simp: predict_def val_batch_def split: sum.splits option.splits)
qed


lemma predict_correct_predictions:
  "predict model c = Inr logits \<Longrightarrow>
   correct_predictions model c = count_correct logits (map snd c)"
  by (simp add: correct_predictions_def)


section \<open>The inner loops\<close>

lemma for_each_val_batch:
  assumes "list_all (\<lambda>c. list_all dataset_entry c \<and> c \<noteq> []) cs"
  shows "for_each (val_batch model) (map collate_molgraphs_for_classification cs) (t, n) =
    Inr (t + sum_list (map (correct_predictions model) cs), n + sum_list (map length cs))"
  using assms
proof (induction cs arbitrary: t n)
  case Nil
  then show ?case by simp
next
  case (Cons c cs)
  then have c: "list_all dataset_entry c" "c \<noteq> []"
    and cs: "list_all (\<lambda>c. list_all dataset_entry c \<and> c \<noteq> []) cs"
    by simp_all
  from predict_returns [OF c] obtain logits where logits: "predict model c = Inr logits"
    by blast
  show ?case
    by (simp add: predict_val_batch [OF logits] predict_correct_predictions [OF logits]
        Cons.IH [OF cs] add.assoc)
qed


lemma loader_chunks:
  assumes "list_all dataset_entry xs"
  shows "list_all (\<lambda>c. list_all dataset_entry c \<and> c \<noteq> []) (chunks n xs)"
  using chunks_member [of _ n xs dataset_entry] assms
  by (auto simp: list_all_iff)

section \<open>Properties of the printed fields\<close>










section \<open>The training loop\<close>







text \<open>
  Claim C8. Running the training loop for 0 epochs leaves every model parameter (and the
  optimiser state) as it was initialised, and prints nothing.
\<close>

theorem training_loop_zero_epochs:
  "training_loop lib 0 loader model opt = Inr ((model, opt), [])"
  by (simp add: training_loop_def)

section \<open>The validation loop\<close>

lemma validation_counts_eq:
  assumes "list_all dataset_entry valset"
  shows "validation_counts model (val_loader valset) =
    Inr (sum_list (map (correct_predictions model) (chunks 512 valset)), length valset)"
  using for_each_val_batch [OF loader_chunks [OF assms, of 512], of model 0 0]
  by (simp add: validation_counts_def val_loader_def DataLoader_def sum_length_chunks)



text \<open>
  Claim C10. The final validation accuracy is \<open>true_samples / num_samples\<close>, where
  \<open>num_samples\<close> is the sum of the batch sizes seen. For a validation subset of well-formed
  entries it is positive exactly when the subset is not empty; for an empty subset the
  division raises \<^verbatim>\<open>ZeroDivisionError\<close> and no number is reported.
\<close>

theorem validation_accuracy_defined_iff:
  assumes "list_all dataset_entry valset"
  shows "\<exists>true_samples num_samples.
      validation_counts model (val_loader valset) = Inr (true_samples, num_samples)
    \<and> num_samples = sum_list (map length (chunks 512 valset))
    \<and> (0 < num_samples \<longleftrightarrow> valset \<noteq> [])
    \<and> validation model (val_loader valset) =
        (if valset = [] then Inl ZeroDivisionError
         else Inr (validation_line (real true_samples / real num_samples)))"
  using validation_counts_eq [OF assms, of model]
  by (simp add: validation_def sum_length_chunks)

theorem validation_accuracy_defined_iff_witness:
  "list_all dataset_entry example_dataset
   \<and> validation_counts example_model (val_loader example_dataset) = Inr (1, 2)
   \<and> validation example_model (val_loader example_dataset) = Inr ''Validation Accuracy: 0.5000''
   \<and> list_all dataset_entry []
   \<and> validation_counts example_model (val_loader []) = Inr (0, 0)
   \<and> validation example_model (val_loader []) = Inl ZeroDivisionError"
proof -
  have counts: "validation_counts example_model (val_loader example_dataset) = Inr (1, 2)"
    by (simp add: loop_defs collate_defs model_defs tensor_defs example_defs upt_rec)
  from validation_accuracy_defined_iff [OF example_dataset_entries, of example_model]
  obtain true_samples num_samples where
    "validation_counts example_model (val_loader example_dataset) =
      Inr (true_samples, num_samples)"
    and printed: "validation example_model (val_loader example_dataset) =
      (if example_dataset = [] then Inl ZeroDivisionError
       else Inr (validation_line (real true_samples / real num_samples)))"
    by blast
  with counts have "true_samples = 1" and "num_samples = 2"
    by simp_all
  with printed have full: "validation example_model (val_loader example_dataset) =
      Inr ''Validation Accuracy: 0.5000''"
    by (simp add: example_dataset_nonempty format_defs)
  have none: "list_all dataset_entry []"
    by simp
  from validation_accuracy_defined_iff [OF none, of example_model]
  have "validation_counts example_model (val_loader []) = Inr (0, 0)"
    and "validation example_model (val_loader []) = Inl ZeroDivisionError"
    by (simp_all add: chunks_Nil val_loader_def DataLoader_def validation_counts_def)
  with counts full example_dataset_entries show ?thesis
    by simp
qed

section \<open>Properties of the split\<close>

lemma split_lengths_two:
  "split_lengths n [4 / 5, 1 / 5] =
     [nat \<lfloor>real n * (4 / 5)\<rfloor>, n - nat \<lfloor>real n * (4 / 5)\<rfloor>]"
  by (simp add: split_lengths_def)

lemma train_length_le: "nat \<lfloor>real n * (4 / 5)\<rfloor> \<le> n"
proof -
  have "real n * (4 / 5) \<le> real n"
    by simp
  then have "\<lfloor>real n * (4 / 5)\<rfloor> \<le> int n"
    by (simp add: floor_le_iff)
  then show ?thesis
    by simp
qed

lemma train_length_close:
  "\<bar>real (nat \<lfloor>real n * (4 / 5)\<rfloor>) - real n * (4 / 5)\<bar> < 1"
proof -
  define x where "x = real n * (4 / 5)"
  have "0 \<le> x"
    by (simp add: x_def)
  then have "0 \<le> \<lfloor>x\<rfloor>"
    by simp
  then have "real (nat \<lfloor>x\<rfloor>) = real_of_int \<lfloor>x\<rfloor>"
    by simp
  moreover have "real_of_int \<lfloor>x\<rfloor> \<le> x" and "x < real_of_int \<lfloor>x\<rfloor> + 1"
    by linarith+
  ultimately have "\<bar>real (nat \<lfloor>x\<rfloor>) - x\<bar> < 1"
    by linarith
  then show ?thesis
    unfolding x_def .
qed

text \<open>
  Claim C2. For every seed, splitting with the ratios [0.8, 0.2] yields two disjoint index
  sets whose union is the whole data set, of sizes within one element of the requested
  shares; a data set of 600 graphs gives exactly 480 training and 120 validation indices.
  The shuffled index order of the seed is assumed to be a permutation of the indices.
\<close>

theorem split_dataset_partition:
  assumes "distinct (permutation random_state (length dataset))"
    and "set (permutation random_state (length dataset)) = {0..<length dataset}"
  shows "\<exists>trainset valset.
      train_val_split permutation dataset random_state = Inr (trainset, valset)
    \<and> set trainset \<inter> set valset = {}
    \<and> set trainset \<union> set valset = {0..<length dataset}
    \<and> distinct trainset \<and> distinct valset
    \<and> length trainset + length valset = length dataset
    \<and> \<bar>real (length trainset) - 4 / 5 * real (length dataset)\<bar> < 1
    \<and> \<bar>real (length valset) - 1 / 5 * real (length dataset)\<bar> < 1
    \<and> (length dataset = 600 \<longrightarrow> length trainset = 480 \<and> length valset = 120)"
proof -
  define n where "n = length dataset"
  define p where "p = permutation random_state n"
  define k where "k = nat \<lfloor>real n * (4 / 5)\<rfloor>"
  have dist: "distinct p" and elems: "set p = {0..<n}"
    using assms by (simp_all add: p_def n_def)
  have len_p: "length p = n"
    using distinct_card [OF dist] elems by simp
  have k_le: "k \<le> n"
    unfolding k_def by (rule train_length_le)
  have second: "take (n - k) (drop k p) = drop k p"
    by (simp add: len_p)
  have "split_dataset permutation dataset [4 / 5, 1 / 5] True random_state =
      segments [k, n - k] p"
    by (simp only: split_dataset_def split_lengths_two Let_def if_True n_def [symmetric]
        p_def [symmetric] k_def [symmetric])
  then have split: "split_dataset permutation dataset [4 / 5, 1 / 5] True random_state =
      [take k p, drop k p]"
    using second by simp
  have run: "train_val_split permutation dataset random_state = Inr (take k p, drop k p)"
    by (simp add: train_val_split_def split)
  have disjoint: "set (take k p) \<inter> set (drop k p) = {}"
    using dist by (rule set_take_disj_set_drop_if_distinct) simp
  have "set (take k p) \<union> set (drop k p) = set (take k p @ drop k p)"
    by (simp only: set_append)
  then have cover: "set (take k p) \<union> set (drop k p) = {0..<n}"
    by (simp add: elems)
  have sizes: "length (take k p) = k" "length (drop k p) = n - k"
    using k_le by (simp_all add: len_p)
  have "\<bar>real k - real n * (4 / 5)\<bar> < 1"
    unfolding k_def by (rule train_length_close)
  then have close_train: "\<bar>real k - 4 / 5 * real n\<bar> < 1"
    by (simp add: mult.commute)
  have "real (n - k) - 1 / 5 * real n = - (real k - 4 / 5 * real n)"
    using k_le by (simp add: of_nat_diff)
  with close_train have close_val: "\<bar>real (n - k) - 1 / 5 * real n\<bar> < 1"
    by simp
  have exact: "k = 480" if "n = 600"
    unfolding k_def that by simp
  show ?thesis
  proof (intro exI conjI impI)
    show "train_val_split permutation dataset random_state = Inr (take k p, drop k p)"
      by (rule run)
    show "set (take k p) \<inter> set (drop k p) = {}"
      by (rule disjoint)
    show "set (take k p) \<union> set (drop k p) = {0..<length dataset}"
      using cover by (simp only: n_def)
    show "distinct (take k p)" and "distinct (drop k p)"
      using dist by simp_all
    show "length (take k p) + length (drop k p) = length dataset"
      using k_le len_p by (simp add: n_def [symmetric])
    show "\<bar>real (length (take k p)) - 4 / 5 * real (length dataset)\<bar> < 1"
      using close_train by (simp only: sizes n_def [symmetric])
    show "\<bar>real (length (drop k p)) - 1 / 5 * real (length dataset)\<bar> < 1"
      using close_val by (simp only: sizes n_def [symmetric])
    show "length (take k p) = 480" if "length dataset = 600"
    proof -
      from that have "n = 600"
        by (simp only: n_def)
      from exact [OF this] sizes(1) show ?thesis
        by (simp only:)
    qed
    show "length (drop k p) = 120" if "length dataset = 600"
    proof -
      from that have n: "n = 600"
        by (simp only: n_def)
      from exact [OF n] n have "n - k = 120"
        by simp
      with sizes(2) show ?thesis
        by (simp only:)
    qed
  qed
qed

theorem split_dataset_partition_witness:
  "distinct (example_permutation 42 (length (replicate 600 example_graph_a)))
   \<and> set (example_permutation 42 (length (replicate 600 example_graph_a)))
       = {0..<length (replicate 600 example_graph_a)}
   \<and> (\<exists>trainset valset.
         train_val_split example_permutation (replicate 600 example_graph_a) 42
           = Inr (trainset, valset)
       \<and> set trainset \<inter> set valset = {}
       \<and> set trainset \<union> set valset = {0..<600}
       \<and> length trainset = 480
       \<and> length valset = 120)"
proof -
  have perm: "distinct (example_permutation 42 (length (replicate 600 example_graph_a)))"
    "set (example_permutation 42 (length (replicate 600 example_graph_a)))
       = {0..<length (replicate 600 example_graph_a)}"
    by (simp_all add: example_permutation_def)
  from split_dataset_partition
      [of example_permutation 42 "replicate 600 example_graph_a", OF perm] perm
  show ?thesis
    by auto
qed

end
